theory Spec2Isabelle
  imports Main
begin

section \<open>The environment builders of \<open>scripts/runtime_env.py\<close>\<close>

text \<open>
  A Python \<open>str\<close> is a \<^typ>\<open>string\<close>; one list element stands for one character of
  the \<open>str\<close>, so that \<^const>\<open>length\<close> is Python's \<open>len\<close>. A \<open>Dict[str, str]\<close>
  (the process environment, the mapping returned by \<open>build\<close>, \<open>extra_vars\<close>) is a map
  from strings to strings; two dictionaries are equal in Python when they hold the same
  keys with the same values, which is equality of maps.
\<close>

type_synonym env = "string \<rightharpoonup> string"

subsection \<open>Module constants and enumerations\<close>

definition DEV_DEFAULT_JWT_SECRET :: string where
  "DEV_DEFAULT_JWT_SECRET = ''devsecretkey123456789012345678901234567890''"

datatype DatabaseType = H2 | POSTGRES

datatype SpringProfile = DEFAULT_PROFILE | DEV_PROFILE | PROD_PROFILE

fun SpringProfile_value :: "SpringProfile \<Rightarrow> string" where
  "SpringProfile_value DEFAULT_PROFILE = ''default''"
| "SpringProfile_value DEV_PROFILE = ''dev''"
| "SpringProfile_value PROD_PROFILE = ''prod''"

subsection \<open>Library functions of Python used by the module\<close>

text \<open>
  \<open>str.lower\<close> on the characters a \<^typ>\<open>char\<close> can hold: the ASCII capitals and the
  capitals of the upper half (192 to 222, without the multiplication sign 215) move up
  by 32, every other character stays.
\<close>

definition lower_char :: "char \<Rightarrow> char" where
  "lower_char c =
     (let n = (of_char c :: nat)
      in if (65 \<le> n \<and> n \<le> 90) \<or> (192 \<le> n \<and> n \<le> 222 \<and> n \<noteq> 215)
         then char_of (n + 32) else c)"

definition lower :: "string \<Rightarrow> string" where
  "lower s = map lower_char s"

text \<open>\<open>str(b)\<close> for a \<open>bool\<close>.\<close>

definition str_bool :: "bool \<Rightarrow> string" where
  "str_bool b = (if b then ''True'' else ''False'')"

text \<open>\<open>str(n)\<close> for a natural number, as the f-string of the length check renders it.\<close>

fun str_nat :: "nat \<Rightarrow> string" where
  "str_nat n =
     (if n < 10 then [char_of (48 + n)]
      else str_nat (n div 10) @ [char_of (48 + n mod 10)])"

text \<open>
  The truth value of an \<open>Optional[str]\<close>: \<open>not s\<close> holds for \<open>None\<close> and for the
  empty string.
\<close>

fun truthy :: "string option \<Rightarrow> bool" where
  "truthy None = False"
| "truthy (Some s) = (s \<noteq> [])"

text \<open>\<open>dict.setdefault(k, v)\<close>: stores \<open>v\<close> only when \<open>k\<close> is not a key yet.\<close>

definition setdefault :: "env \<Rightarrow> string \<Rightarrow> string \<Rightarrow> env" where
  "setdefault e k v = (case e k of None \<Rightarrow> e(k \<mapsto> v) | Some _ \<Rightarrow> e)"

subsection \<open>The process: ambient environment and diagnostic stream\<close>

text \<open>
  \<open>os.environ\<close> and what has been written to \<open>sys.stderr\<close>, one list element for each
  \<open>print\<close> call. Every operation that reads or writes one of them takes the process
  state and, when it can write, returns it.
\<close>

record world =
  environ :: env
  stderr :: "string list"

text \<open>\<open>print(msg, file=sys.stderr)\<close> writes the message and a newline.\<close>

definition print_stderr :: "string \<Rightarrow> world \<Rightarrow> world" where
  "print_stderr msg w = w\<lparr>stderr := stderr w @ [msg @ [CHR 0x0A]]\<rparr>"

subsection \<open>Configuration and builders\<close>

record EnvironmentConfig =
  cookie_secure :: bool
  spring_profile :: SpringProfile
  csp_relaxed :: bool
  jwt_secret :: "string option"
  require_ssl :: bool
  database :: DatabaseType
  postgres_url :: string
  postgres_username :: string
  postgres_password :: string
  extra_vars :: env

text \<open>The field defaults of the dataclass.\<close>

definition EnvironmentConfig_init :: EnvironmentConfig where
  "EnvironmentConfig_init =
     \<lparr>cookie_secure = False, spring_profile = DEFAULT_PROFILE, csp_relaxed = False,
      jwt_secret = None, require_ssl = False, database = H2,
      postgres_url = ''jdbc:postgresql://localhost:5432/contactapp'',
      postgres_username = ''contactapp'', postgres_password = ''contactapp'',
      extra_vars = Map.empty\<rparr>"

text \<open>
  A builder object is its class, which selects the \<open>validate\<close> that runs, and its
  \<open>_config\<close>.
\<close>

datatype mode = Dev | ProdLocal | CILocal

record builder =
  kind :: mode
  config :: EnvironmentConfig

text \<open>\<open>DevEnvironment.__init__(database)\<close>.\<close>

definition DevEnvironment :: "string \<Rightarrow> builder" where
  "DevEnvironment db =
     (let c = EnvironmentConfig_init\<lparr>cookie_secure := False, csp_relaxed := True,
                                      require_ssl := False\<rparr>
      in \<lparr>kind = Dev,
          config = (if lower db = ''postgres''
                    then c\<lparr>database := POSTGRES, spring_profile := DEV_PROFILE\<rparr>
                    else c\<lparr>database := H2, spring_profile := DEFAULT_PROFILE\<rparr>)\<rparr>)"

text \<open>\<open>DevEnvironment.with_postgres_credentials(url, username, password)\<close>.\<close>

definition with_postgres_credentials :: "string \<Rightarrow> string \<Rightarrow> string \<Rightarrow> builder \<Rightarrow> builder" where
  "with_postgres_credentials url username password b =
     b\<lparr>config := (config b)\<lparr>postgres_url := url, postgres_username := username,
                             postgres_password := password\<rparr>\<rparr>"

text \<open>
  \<open>ProdLocalEnvironment.__init__()\<close>: the secret is \<open>os.environ.get("JWT_SECRET")\<close>
  of the process at the time of the call.
\<close>

definition ProdLocalEnvironment :: "world \<Rightarrow> builder" where
  "ProdLocalEnvironment w =
     \<lparr>kind = ProdLocal,
      config = EnvironmentConfig_init\<lparr>cookie_secure := True, csp_relaxed := False,
                 require_ssl := False, database := POSTGRES, spring_profile := PROD_PROFILE,
                 jwt_secret := environ w ''JWT_SECRET''\<rparr>\<rparr>"

text \<open>\<open>ProdLocalEnvironment.with_https()\<close>.\<close>

definition with_https :: "builder \<Rightarrow> builder" where
  "with_https b = b\<lparr>config := (config b)\<lparr>require_ssl := True\<rparr>\<rparr>"

text \<open>\<open>CILocalEnvironment.__init__()\<close>.\<close>

definition CILocalEnvironment :: builder where
  "CILocalEnvironment =
     \<lparr>kind = CILocal,
      config = EnvironmentConfig_init\<lparr>cookie_secure := True, spring_profile := DEFAULT_PROFILE,
                 csp_relaxed := False, require_ssl := False\<rparr>\<rparr>"

subsection \<open>Validation\<close>

text \<open>
  The three \<open>raise ValueError(...)\<close> of \<open>ProdLocalEnvironment.validate\<close>, in the order
  of the source; the third carries the length its message prints.
\<close>

datatype validation_error = MissingSecret | InsecureDefaultSecret | SecretTooShort nat

fun ValueError_message :: "validation_error \<Rightarrow> string" where
  "ValueError_message MissingSecret =
     ''JWT_SECRET environment variable is required for prod-local mode.'' @ [CHR 0x0A] @
     ''Set it with: export JWT_SECRET=$(openssl rand -base64 32)''"
| "ValueError_message InsecureDefaultSecret =
     ''JWT_SECRET cannot be the dev default in prod-local mode.'' @ [CHR 0x0A] @
     ''Generate a secure secret with: openssl rand -base64 32''"
| "ValueError_message (SecretTooShort n) =
     ''JWT_SECRET must be at least 32 characters (got '' @ str_nat n @ '').'' @ [CHR 0x0A] @
     ''Generate a secure secret with: openssl rand -base64 32''"

definition DevEnvironment_validate :: "builder \<Rightarrow> world \<Rightarrow> (validation_error + unit) \<times> world" where
  "DevEnvironment_validate b w = (Inr (), w)"

definition ProdLocalEnvironment_validate :: "builder \<Rightarrow> world \<Rightarrow> (validation_error + unit) \<times> world" where
  "ProdLocalEnvironment_validate b w =
     (let jwt = jwt_secret (config b)
      in if \<not> truthy jwt then (Inl MissingSecret, w)
         else if jwt = Some DEV_DEFAULT_JWT_SECRET then (Inl InsecureDefaultSecret, w)
         else if length (the jwt) < 32 then (Inl (SecretTooShort (length (the jwt))), w)
         else (Inr (), w))"

definition NVD_warning :: string where
  "NVD_warning =
     ''[WARN] NVD_API_KEY not set. OWASP Dependency-Check will be slower.'' @ [CHR 0x0A] @
     ''       Get a free key at: https://nvd.nist.gov/developers/request-an-api-key''"

definition CILocalEnvironment_validate :: "builder \<Rightarrow> world \<Rightarrow> (validation_error + unit) \<times> world" where
  "CILocalEnvironment_validate b w =
     (if \<not> truthy (environ w ''NVD_API_KEY'') then (Inr (), print_stderr NVD_warning w)
      else (Inr (), w))"

text \<open>\<open>self.validate()\<close>: the method of the builder's class.\<close>

definition validate :: "builder \<Rightarrow> world \<Rightarrow> (validation_error + unit) \<times> world" where
  "validate b w =
     (case kind b of
        Dev \<Rightarrow> DevEnvironment_validate b w
      | ProdLocal \<Rightarrow> ProdLocalEnvironment_validate b w
      | CILocal \<Rightarrow> CILocalEnvironment_validate b w)"

subsection \<open>Building the environment dictionary\<close>

text \<open>
  The overlay steps of \<open>EnvironmentBuilder.build\<close> after validation, on the copy of
  \<open>os.environ\<close>, in the order of the source.
\<close>

definition overlay :: "EnvironmentConfig \<Rightarrow> env \<Rightarrow> env" where
  "overlay c e0 =
     (let e1 = e0(''APP_AUTH_COOKIE_SECURE'' \<mapsto> lower (str_bool (cookie_secure c)));
          e2 = e1(''COOKIE_SECURE'' \<mapsto> lower (str_bool (cookie_secure c)));
          e3 = e2(''SPRING_PROFILES_ACTIVE'' \<mapsto> SpringProfile_value (spring_profile c));
          e4 = (if csp_relaxed c then e3(''CSP_RELAXED'' \<mapsto> ''true'') else e3);
          e5 = (if truthy (jwt_secret c) then e4(''JWT_SECRET'' \<mapsto> the (jwt_secret c)) else e4);
          e6 = e5(''REQUIRE_SSL'' \<mapsto> lower (str_bool (require_ssl c)));
          e7 = (if database c = POSTGRES
                then setdefault
                       (setdefault
                          (setdefault
                             (setdefault e6 ''SPRING_DATASOURCE_URL'' (postgres_url c))
                             ''SPRING_DATASOURCE_USERNAME'' (postgres_username c))
                          ''SPRING_DATASOURCE_PASSWORD'' (postgres_password c))
                       ''SPRING_DATASOURCE_DRIVER_CLASS_NAME'' ''org.postgresql.Driver''
                else e6)
      in e7 ++ extra_vars c)"

text \<open>
  \<open>build\<close>: a \<open>ValueError\<close> of \<open>validate\<close> leaves the method before the dictionary
  exists (\<open>Inl\<close>); otherwise the copy of \<open>os.environ\<close> with the overlay is returned
  (\<open>Inr\<close>). \<open>os.environ\<close> itself is never written.
\<close>

definition build :: "builder \<Rightarrow> world \<Rightarrow> (validation_error + env) \<times> world" where
  "build b w =
     (case validate b w of
        (Inl err, w') \<Rightarrow> (Inl err, w')
      | (Inr u, w') \<Rightarrow> (Inr (overlay (config b) (environ w')), w'))"

subsection \<open>The standalone secret check\<close>

definition is_jwt_secret_valid :: "string option \<Rightarrow> bool" where
  "is_jwt_secret_valid secret =
     (if \<not> truthy secret then False
      else if secret = Some DEV_DEFAULT_JWT_SECRET then False
      else if length (the secret) < 32 then False
      else True)"

section \<open>Properties\<close>

subsection \<open>Auxiliary facts\<close>

lemma lower_str_bool: "lower (str_bool b) = (if b then ''true'' else ''false'')"
  by (simp add: lower_def str_bool_def lower_char_def char_of_eq_iff)

lemma lower_postgres: "lower ''postgres'' = ''postgres''"
  by (simp add: lower_def lower_char_def char_of_eq_iff)

lemma DEV_DEFAULT_JWT_SECRET_length: "length DEV_DEFAULT_JWT_SECRET = 42"
  by (simp add: DEV_DEFAULT_JWT_SECRET_def)

lemma DevEnvironment_kind: "kind (DevEnvironment db) = Dev"
  by (simp add: DevEnvironment_def Let_def)

lemma DevEnvironment_postgres:
  "config (DevEnvironment ''postgres'') =
     EnvironmentConfig_init\<lparr>cookie_secure := False, csp_relaxed := True, require_ssl := False,
        database := POSTGRES, spring_profile := DEV_PROFILE\<rparr>"
  by (simp add: DevEnvironment_def Let_def lower_postgres)

lemma ProdLocalEnvironment_kind: "kind (ProdLocalEnvironment w) = ProdLocal"
  by (simp add: ProdLocalEnvironment_def)

lemma ProdLocalEnvironment_jwt_secret:
  "jwt_secret (config (ProdLocalEnvironment w)) = environ w ''JWT_SECRET''"
  by (simp add: ProdLocalEnvironment_def)

lemma validate_Dev: "kind b = Dev \<Longrightarrow> validate b w = (Inr (), w)"
  by (simp add: validate_def DevEnvironment_validate_def)

lemma validate_ProdLocal:
  "kind b = ProdLocal \<Longrightarrow> validate b w = ProdLocalEnvironment_validate b w"
  by (simp add: validate_def)

lemma validate_CILocal:
  "kind b = CILocal \<Longrightarrow> validate b w = CILocalEnvironment_validate b w"
  by (simp add: validate_def)

text \<open>No \<open>validate\<close> writes \<open>os.environ\<close>, and one that raises has written nothing.\<close>

lemma validate_environ: "environ (snd (validate b w)) = environ w"
  by (simp add: validate_def DevEnvironment_validate_def ProdLocalEnvironment_validate_def
      CILocalEnvironment_validate_def print_stderr_def Let_def split: mode.split)

lemma validate_Inl_world: "fst (validate b w) = Inl err \<Longrightarrow> snd (validate b w) = w"
  by (simp add: validate_def DevEnvironment_validate_def ProdLocalEnvironment_validate_def
      CILocalEnvironment_validate_def Let_def split: mode.splits if_splits)

text \<open>The two components of \<open>build\<close> in terms of those of \<open>validate\<close>.\<close>

lemma build_fst:
  "fst (build b w) =
     (case fst (validate b w) of
        Inl err \<Rightarrow> Inl err
      | Inr u \<Rightarrow> Inr (overlay (config b) (environ w)))"
  using validate_environ [of b w]
  by (cases "validate b w") (simp add: build_def split: sum.split)

lemma build_snd: "snd (build b w) = snd (validate b w)"
  by (cases "validate b w") (simp add: build_def split: sum.split)

text \<open>What \<open>setdefault\<close> leaves at a key.\<close>

lemma setdefault_apply:
  "setdefault e k v k' = (if k' = k then (case e k of None \<Rightarrow> Some v | Some a \<Rightarrow> Some a) else e k')"
  by (simp add: setdefault_def split: option.split)

lemma overlay_extra: "extra_vars c k = Some v \<Longrightarrow> overlay c e0 k = Some v"
  by (simp add: overlay_def Let_def map_add_def)

subsection \<open>Failure conditions of the production-like builder\<close>

text \<open>
  C1. For a builder of class \<open>ProdLocalEnvironment\<close>, \<open>validate\<close> fails with
  \<open>MissingSecret\<close> exactly when no secret is present, which for the test of the source
  (\<open>if not jwt_secret\<close>) is a secret that is \<open>None\<close> or the empty string; with
  \<open>InsecureDefaultSecret\<close> exactly when the secret is the development default; with
  \<open>SecretTooShort\<close> exactly when a secret is present (a non-empty string), is not the
  development default and has fewer than 32 characters. A secret of exactly 32
  characters that is not the development default passes, and \<open>build\<close> then returns the
  overlaid dictionary. \<open>build\<close> fails with a condition exactly when \<open>validate\<close> does.
\<close>

theorem ProdLocal_validate_conditions:
  assumes "kind b = ProdLocal"
  shows "((fst (validate b w) = Inl MissingSecret)
            = (jwt_secret (config b) = None \<or> jwt_secret (config b) = Some ''''))
       \<and> ((fst (validate b w) = Inl InsecureDefaultSecret)
            = (jwt_secret (config b) = Some DEV_DEFAULT_JWT_SECRET))
       \<and> ((\<exists>n. fst (validate b w) = Inl (SecretTooShort n))
            = (\<exists>s. jwt_secret (config b) = Some s \<and> s \<noteq> '''' \<and> s \<noteq> DEV_DEFAULT_JWT_SECRET
                   \<and> length s < 32))
       \<and> (\<forall>s. jwt_secret (config b) = Some s \<and> length s = 32 \<and> s \<noteq> DEV_DEFAULT_JWT_SECRET
              \<longrightarrow> fst (validate b w) = Inr ()
                  \<and> fst (build b w) = Inr (overlay (config b) (environ w)))
       \<and> (\<forall>err. (fst (build b w) = Inl err) = (fst (validate b w) = Inl err))"
proof -
  have v: "validate b w = ProdLocalEnvironment_validate b w"
    using assms by (rule validate_ProdLocal)
  have len: "length DEV_DEFAULT_JWT_SECRET \<noteq> 0" "\<not> length DEV_DEFAULT_JWT_SECRET < 32"
    by (simp_all add: DEV_DEFAULT_JWT_SECRET_length)
  show ?thesis
  proof (cases "jwt_secret (config b)")
    case None
    then show ?thesis
      by (simp add: v build_fst ProdLocalEnvironment_validate_def Let_def)
  next
    case (Some s)
    then show ?thesis
      using len
      by (auto simp: v build_fst ProdLocalEnvironment_validate_def Let_def split: if_splits)
  qed
qed

text \<open>
  The theorem at a builder made while \<open>JWT_SECRET\<close> held 32 letters \<open>a\<close>, the secret of
  the test suite: validation passes.
\<close>

theorem ProdLocal_validate_conditions_witness:
  "kind (ProdLocalEnvironment \<lparr>environ = [''JWT_SECRET'' \<mapsto> ''aaaaaaaaaaaaaaaaaaaaaaaaaaaaaaaa''], stderr = []\<rparr>) = ProdLocal
   \<and> length ''aaaaaaaaaaaaaaaaaaaaaaaaaaaaaaaa'' = 32
   \<and> fst (validate (ProdLocalEnvironment \<lparr>environ = [''JWT_SECRET'' \<mapsto> ''aaaaaaaaaaaaaaaaaaaaaaaaaaaaaaaa''], stderr = []\<rparr>)
        \<lparr>environ = Map.empty, stderr = []\<rparr>) = Inr ()
   \<and> fst (validate (ProdLocalEnvironment \<lparr>environ = [''JWT_SECRET'' \<mapsto> ''aaaaaaaaaaaaaaaaaaaaaaaaaaaaaaaa''], stderr = []\<rparr>)
        \<lparr>environ = Map.empty, stderr = []\<rparr>) \<noteq> Inl MissingSecret"
  using ProdLocal_validate_conditions
    [of "ProdLocalEnvironment \<lparr>environ = [''JWT_SECRET'' \<mapsto> ''aaaaaaaaaaaaaaaaaaaaaaaaaaaaaaaa''], stderr = []\<rparr>"
        "\<lparr>environ = Map.empty, stderr = []\<rparr>"]
  by (simp add: ProdLocalEnvironment_kind ProdLocalEnvironment_jwt_secret DEV_DEFAULT_JWT_SECRET_def)

subsection \<open>Extra variables are applied last\<close>

text \<open>
  C2. Whatever the class of the builder and whatever the process environment: when
  \<open>build\<close> returns a dictionary, every key of \<open>extra_vars\<close> has in it the value that
  \<open>extra_vars\<close> gives it, whatever the earlier steps or \<open>os.environ\<close> held for that key.
\<close>

theorem build_extra_vars_win:
  "fst (build b w) = Inr e \<Longrightarrow> extra_vars (config b) k = Some v \<Longrightarrow> e k = Some v"
  by (auto simp: build_fst overlay_extra split: sum.splits)

text \<open>
  A Postgres development builder with two extra variables, in a process that sets both
  keys: the datasource URL of the result is the extra one.
\<close>

theorem build_extra_vars_win_witness:
  "(case fst (build ((DevEnvironment ''postgres'')
            \<lparr>config := (config (DevEnvironment ''postgres''))
               \<lparr>extra_vars := [''COOKIE_SECURE'' \<mapsto> ''maybe'', ''SPRING_DATASOURCE_URL'' \<mapsto> ''jdbc:x'']\<rparr>\<rparr>)
          \<lparr>environ = [''COOKIE_SECURE'' \<mapsto> ''true'', ''SPRING_DATASOURCE_URL'' \<mapsto> ''jdbc:y''], stderr = []\<rparr>)
    of Inl err \<Rightarrow> None | Inr e \<Rightarrow> e ''SPRING_DATASOURCE_URL'') = Some ''jdbc:x''"
proof -
  let ?b = "(DevEnvironment ''postgres'')
          \<lparr>config := (config (DevEnvironment ''postgres''))
             \<lparr>extra_vars := [''COOKIE_SECURE'' \<mapsto> ''maybe'', ''SPRING_DATASOURCE_URL'' \<mapsto> ''jdbc:x'']\<rparr>\<rparr>"
  let ?w = "\<lparr>environ = [''COOKIE_SECURE'' \<mapsto> ''true'', ''SPRING_DATASOURCE_URL'' \<mapsto> ''jdbc:y''], stderr = []\<rparr>"
  have ok: "fst (build ?b ?w) = Inr (overlay (config ?b) (environ ?w))"
    by (simp add: build_fst validate_Dev DevEnvironment_kind)
  have ex: "extra_vars (config ?b) ''SPRING_DATASOURCE_URL'' = Some ''jdbc:x''"
    by simp
  from build_extra_vars_win [OF ok ex] ok show ?thesis by simp
qed

subsection \<open>Datasource variables keep their ambient values\<close>

text \<open>The overlay at each of the four datasource keys, when no extra variable has the key.\<close>

lemma overlay_url:
  "database c = POSTGRES \<Longrightarrow> extra_vars c ''SPRING_DATASOURCE_URL'' = None \<Longrightarrow>
   overlay c e0 ''SPRING_DATASOURCE_URL'' =
     (case e0 ''SPRING_DATASOURCE_URL'' of Some a \<Rightarrow> Some a | None \<Rightarrow> Some (postgres_url c))"
  by (simp add: overlay_def Let_def map_add_def setdefault_apply split: option.split)

lemma overlay_username:
  "database c = POSTGRES \<Longrightarrow> extra_vars c ''SPRING_DATASOURCE_USERNAME'' = None \<Longrightarrow>
   overlay c e0 ''SPRING_DATASOURCE_USERNAME'' =
     (case e0 ''SPRING_DATASOURCE_USERNAME'' of Some a \<Rightarrow> Some a
      | None \<Rightarrow> Some (postgres_username c))"
  by (simp add: overlay_def Let_def map_add_def setdefault_apply split: option.split)

lemma overlay_password:
  "database c = POSTGRES \<Longrightarrow> extra_vars c ''SPRING_DATASOURCE_PASSWORD'' = None \<Longrightarrow>
   overlay c e0 ''SPRING_DATASOURCE_PASSWORD'' =
     (case e0 ''SPRING_DATASOURCE_PASSWORD'' of Some a \<Rightarrow> Some a
      | None \<Rightarrow> Some (postgres_password c))"
  by (simp add: overlay_def Let_def map_add_def setdefault_apply split: option.split)

lemma overlay_driver:
  "database c = POSTGRES \<Longrightarrow> extra_vars c ''SPRING_DATASOURCE_DRIVER_CLASS_NAME'' = None \<Longrightarrow>
   overlay c e0 ''SPRING_DATASOURCE_DRIVER_CLASS_NAME'' =
     (case e0 ''SPRING_DATASOURCE_DRIVER_CLASS_NAME'' of Some a \<Rightarrow> Some a
      | None \<Rightarrow> Some ''org.postgresql.Driver'')"
  by (simp add: overlay_def Let_def map_add_def setdefault_apply split: option.split)

text \<open>
  The four keys together, for any builder whose \<open>_config\<close> has the Postgres backend,
  in terms of the fields of \<open>_config\<close>.
\<close>

lemma build_datasource_of_config:
  assumes "database (config b) = POSTGRES"
    and "fst (build b w) = Inr e"
    and "extra_vars (config b) k = None"
    and "(k, v) \<in> set [(''SPRING_DATASOURCE_URL'', postgres_url (config b)),
                        (''SPRING_DATASOURCE_USERNAME'', postgres_username (config b)),
                        (''SPRING_DATASOURCE_PASSWORD'', postgres_password (config b)),
                        (''SPRING_DATASOURCE_DRIVER_CLASS_NAME'', ''org.postgresql.Driver'')]"
  shows "e k = (case environ w k of Some a \<Rightarrow> Some a | None \<Rightarrow> Some v)"
proof -
  from assms(2) have e: "e = overlay (config b) (environ w)"
    by (auto simp: build_fst split: sum.splits)
  from assms(4) have
      "k = ''SPRING_DATASOURCE_URL'' \<and> v = postgres_url (config b)
     \<or> k = ''SPRING_DATASOURCE_USERNAME'' \<and> v = postgres_username (config b)
     \<or> k = ''SPRING_DATASOURCE_PASSWORD'' \<and> v = postgres_password (config b)
     \<or> k = ''SPRING_DATASOURCE_DRIVER_CLASS_NAME'' \<and> v = ''org.postgresql.Driver''"
    by simp
  then show ?thesis
  proof (elim disjE conjE)
    assume "k = ''SPRING_DATASOURCE_URL''" "v = postgres_url (config b)"
    with overlay_url [OF assms(1), of "environ w"] assms(3) e show ?thesis
      by (simp split: option.split)
  next
    assume "k = ''SPRING_DATASOURCE_USERNAME''" "v = postgres_username (config b)"
    with overlay_username [OF assms(1), of "environ w"] assms(3) e show ?thesis
      by (simp split: option.split)
  next
    assume "k = ''SPRING_DATASOURCE_PASSWORD''" "v = postgres_password (config b)"
    with overlay_password [OF assms(1), of "environ w"] assms(3) e show ?thesis
      by (simp split: option.split)
  next
    assume "k = ''SPRING_DATASOURCE_DRIVER_CLASS_NAME''" "v = ''org.postgresql.Driver''"
    with overlay_driver [OF assms(1), of "environ w"] assms(3) e show ?thesis
      by (simp split: option.split)
  qed
qed

text \<open>
  What the constructors and mutators leave in the datasource fields: a production-like
  builder has the Postgres backend and the default credentials, \<open>with_https\<close> touches
  none of them, a development builder made for \<open>postgres\<close> (in any letter case) has the
  Postgres backend, and \<open>with_postgres_credentials\<close> stores its three arguments and
  keeps the backend.
\<close>

lemma ProdLocalEnvironment_datasource:
  "database (config (ProdLocalEnvironment w)) = POSTGRES"
  "postgres_url (config (ProdLocalEnvironment w)) = ''jdbc:postgresql://localhost:5432/contactapp''"
  "postgres_username (config (ProdLocalEnvironment w)) = ''contactapp''"
  "postgres_password (config (ProdLocalEnvironment w)) = ''contactapp''"
  by (simp_all add: ProdLocalEnvironment_def EnvironmentConfig_init_def)

lemma with_https_funpow_datasource:
  "database (config ((with_https ^^ n) b)) = database (config b)
   \<and> postgres_url (config ((with_https ^^ n) b)) = postgres_url (config b)
   \<and> postgres_username (config ((with_https ^^ n) b)) = postgres_username (config b)
   \<and> postgres_password (config ((with_https ^^ n) b)) = postgres_password (config b)"
  by (induction n) (simp_all add: with_https_def)

lemma DevEnvironment_database:
  "lower db = ''postgres'' \<Longrightarrow> database (config (DevEnvironment db)) = POSTGRES"
  by (simp add: DevEnvironment_def Let_def)

lemma with_postgres_credentials_datasource:
  "database (config (with_postgres_credentials url username password b)) = database (config b)"
  "postgres_url (config (with_postgres_credentials url username password b)) = url"
  "postgres_username (config (with_postgres_credentials url username password b)) = username"
  "postgres_password (config (with_postgres_credentials url username password b)) = password"
  by (simp_all add: with_postgres_credentials_def)

text \<open>
  C3. Let \<open>build\<close> return a dictionary and let \<open>extra_vars\<close> have no entry for the key.
  For every builder whose database is Postgres, whatever its class, and for each of the
  four datasource keys, taken with the value the builder configures for it (the URL, the
  user name and the password of \<open>_config\<close>, and the fixed driver class name), the
  dictionary holds the value of \<open>os.environ\<close> where \<open>os.environ\<close> has the key, and the
  configured value where it has not. This covers the builders the module makes: for
  every production-like builder (made in any process, after any number of \<open>with_https\<close>
  calls, with any extra variables) the configured values are the default local
  credentials; for a development builder made for \<open>postgres\<close>, after
  \<open>with_postgres_credentials url username password\<close> and with any extra variables,
  they are \<open>url\<close>, \<open>username\<close> and \<open>password\<close>.
\<close>

theorem build_postgres_datasource:
  assumes "fst (build b w) = Inr e"
    and "extra_vars (config b) k = None"
  shows
    "(database (config b) = POSTGRES
        \<and> (k, v) \<in> set [(''SPRING_DATASOURCE_URL'', postgres_url (config b)),
                         (''SPRING_DATASOURCE_USERNAME'', postgres_username (config b)),
                         (''SPRING_DATASOURCE_PASSWORD'', postgres_password (config b)),
                         (''SPRING_DATASOURCE_DRIVER_CLASS_NAME'', ''org.postgresql.Driver'')]
      \<longrightarrow> e k = (case environ w k of Some a \<Rightarrow> Some a | None \<Rightarrow> Some v))
   \<and> (config b = (config ((with_https ^^ n) (ProdLocalEnvironment w0)))\<lparr>extra_vars := x\<rparr>
        \<and> (k, v) \<in> set [(''SPRING_DATASOURCE_URL'', ''jdbc:postgresql://localhost:5432/contactapp''),
                         (''SPRING_DATASOURCE_USERNAME'', ''contactapp''),
                         (''SPRING_DATASOURCE_PASSWORD'', ''contactapp''),
                         (''SPRING_DATASOURCE_DRIVER_CLASS_NAME'', ''org.postgresql.Driver'')]
      \<longrightarrow> e k = (case environ w k of Some a \<Rightarrow> Some a | None \<Rightarrow> Some v))
   \<and> (config b = (config (with_postgres_credentials url username password (DevEnvironment db)))
                    \<lparr>extra_vars := x\<rparr>
        \<and> lower db = ''postgres''
        \<and> (k, v) \<in> set [(''SPRING_DATASOURCE_URL'', url),
                         (''SPRING_DATASOURCE_USERNAME'', username),
                         (''SPRING_DATASOURCE_PASSWORD'', password),
                         (''SPRING_DATASOURCE_DRIVER_CLASS_NAME'', ''org.postgresql.Driver'')]
      \<longrightarrow> e k = (case environ w k of Some a \<Rightarrow> Some a | None \<Rightarrow> Some v))"
proof (intro conjI impI; (elim conjE)?)
  assume "database (config b) = POSTGRES"
    and "(k, v) \<in> set [(''SPRING_DATASOURCE_URL'', postgres_url (config b)),
                         (''SPRING_DATASOURCE_USERNAME'', postgres_username (config b)),
                         (''SPRING_DATASOURCE_PASSWORD'', postgres_password (config b)),
                         (''SPRING_DATASOURCE_DRIVER_CLASS_NAME'', ''org.postgresql.Driver'')]"
  then show "e k = (case environ w k of Some a \<Rightarrow> Some a | None \<Rightarrow> Some v)"
    using assms by (intro build_datasource_of_config)
next
  assume c: "config b = (config ((with_https ^^ n) (ProdLocalEnvironment w0)))\<lparr>extra_vars := x\<rparr>"
    and m: "(k, v) \<in> set [(''SPRING_DATASOURCE_URL'', ''jdbc:postgresql://localhost:5432/contactapp''),
                         (''SPRING_DATASOURCE_USERNAME'', ''contactapp''),
                         (''SPRING_DATASOURCE_PASSWORD'', ''contactapp''),
                         (''SPRING_DATASOURCE_DRIVER_CLASS_NAME'', ''org.postgresql.Driver'')]"
  have f: "database (config b) = POSTGRES"
    "postgres_url (config b) = ''jdbc:postgresql://localhost:5432/contactapp''"
    "postgres_username (config b) = ''contactapp''"
    "postgres_password (config b) = ''contactapp''"
    by (simp_all add: c with_https_funpow_datasource ProdLocalEnvironment_datasource)
  have "(k, v) \<in> set [(''SPRING_DATASOURCE_URL'', postgres_url (config b)),
                         (''SPRING_DATASOURCE_USERNAME'', postgres_username (config b)),
                         (''SPRING_DATASOURCE_PASSWORD'', postgres_password (config b)),
                         (''SPRING_DATASOURCE_DRIVER_CLASS_NAME'', ''org.postgresql.Driver'')]"
    using m by (simp only: f)
  with f(1) assms show "e k = (case environ w k of Some a \<Rightarrow> Some a | None \<Rightarrow> Some v)"
    by (intro build_datasource_of_config)
next
  assume c: "config b = (config (with_postgres_credentials url username password (DevEnvironment db)))
                    \<lparr>extra_vars := x\<rparr>"
    and l: "lower db = ''postgres''"
    and m: "(k, v) \<in> set [(''SPRING_DATASOURCE_URL'', url),
                         (''SPRING_DATASOURCE_USERNAME'', username),
                         (''SPRING_DATASOURCE_PASSWORD'', password),
                         (''SPRING_DATASOURCE_DRIVER_CLASS_NAME'', ''org.postgresql.Driver'')]"
  have f: "database (config b) = POSTGRES"
    "postgres_url (config b) = url"
    "postgres_username (config b) = username"
    "postgres_password (config b) = password"
    by (simp_all add: c with_postgres_credentials_datasource DevEnvironment_database [OF l])
  have "(k, v) \<in> set [(''SPRING_DATASOURCE_URL'', postgres_url (config b)),
                         (''SPRING_DATASOURCE_USERNAME'', postgres_username (config b)),
                         (''SPRING_DATASOURCE_PASSWORD'', postgres_password (config b)),
                         (''SPRING_DATASOURCE_DRIVER_CLASS_NAME'', ''org.postgresql.Driver'')]"
    using m by (simp only: f)
  with f(1) assms show "e k = (case environ w k of Some a \<Rightarrow> Some a | None \<Rightarrow> Some v)"
    by (intro build_datasource_of_config)
qed

text \<open>
  The development builder of the test suite with custom credentials, in a process that
  sets the user name only: the URL is the custom one, the user name stays the ambient
  one. A production-like builder after \<open>with_https\<close>, in a process that sets the URL
  only: the URL stays the ambient one, the password is the default.
\<close>

theorem build_postgres_datasource_witness:
  "(case fst (build (with_postgres_credentials ''jdbc:postgresql://custom:5432/mydb'' ''myuser'' ''mypass''
                        (DevEnvironment ''postgres''))
           \<lparr>environ = [''SPRING_DATASOURCE_USERNAME'' \<mapsto> ''ambient''], stderr = []\<rparr>)
       of Inl err \<Rightarrow> [] | Inr e \<Rightarrow> [e ''SPRING_DATASOURCE_URL'', e ''SPRING_DATASOURCE_USERNAME''])
      = [Some ''jdbc:postgresql://custom:5432/mydb'', Some ''ambient'']
   \<and> (case fst (build (with_https (ProdLocalEnvironment
                        \<lparr>environ = [''JWT_SECRET'' \<mapsto> ''aaaaaaaaaaaaaaaaaaaaaaaaaaaaaaaa''], stderr = []\<rparr>))
           \<lparr>environ = [''SPRING_DATASOURCE_URL'' \<mapsto> ''jdbc:ambient''], stderr = []\<rparr>)
       of Inl err \<Rightarrow> [] | Inr e \<Rightarrow> [e ''SPRING_DATASOURCE_URL'', e ''SPRING_DATASOURCE_PASSWORD''])
      = [Some ''jdbc:ambient'', Some ''contactapp'']"
proof -
  let ?d = "with_postgres_credentials ''jdbc:postgresql://custom:5432/mydb'' ''myuser'' ''mypass''
              (DevEnvironment ''postgres'')"
  let ?w = "\<lparr>environ = [''SPRING_DATASOURCE_USERNAME'' \<mapsto> ''ambient''], stderr = []\<rparr>"
  let ?c = "\<lparr>environ = [''JWT_SECRET'' \<mapsto> ''aaaaaaaaaaaaaaaaaaaaaaaaaaaaaaaa''], stderr = []\<rparr>"
  let ?p = "with_https (ProdLocalEnvironment ?c)"
  let ?u = "\<lparr>environ = [''SPRING_DATASOURCE_URL'' \<mapsto> ''jdbc:ambient''], stderr = []\<rparr>"
  have dk: "kind ?d = Dev"
    by (simp add: with_postgres_credentials_def DevEnvironment_kind)
  have dok: "fst (build ?d ?w) = Inr (overlay (config ?d) (environ ?w))"
    by (simp add: build_fst validate_Dev dk)
  have dex: "extra_vars (config ?d) k = None" for k
    by (simp add: with_postgres_credentials_def DevEnvironment_postgres EnvironmentConfig_init_def)
  have dc: "config ?d = (config ?d)\<lparr>extra_vars := Map.empty\<rparr>"
    by (simp add: with_postgres_credentials_def DevEnvironment_postgres EnvironmentConfig_init_def)
  have dm1: "(''SPRING_DATASOURCE_URL'', ''jdbc:postgresql://custom:5432/mydb'')
      \<in> set [(''SPRING_DATASOURCE_URL'', ''jdbc:postgresql://custom:5432/mydb''),
              (''SPRING_DATASOURCE_USERNAME'', ''myuser''),
              (''SPRING_DATASOURCE_PASSWORD'', ''mypass''),
              (''SPRING_DATASOURCE_DRIVER_CLASS_NAME'', ''org.postgresql.Driver'')]"
    by simp
  have dm2: "(''SPRING_DATASOURCE_USERNAME'', ''myuser'')
      \<in> set [(''SPRING_DATASOURCE_URL'', ''jdbc:postgresql://custom:5432/mydb''),
              (''SPRING_DATASOURCE_USERNAME'', ''myuser''),
              (''SPRING_DATASOURCE_PASSWORD'', ''mypass''),
              (''SPRING_DATASOURCE_DRIVER_CLASS_NAME'', ''org.postgresql.Driver'')]"
    by simp
  have d1: "overlay (config ?d) (environ ?w) ''SPRING_DATASOURCE_URL''
      = (case environ ?w ''SPRING_DATASOURCE_URL'' of Some a \<Rightarrow> Some a
         | None \<Rightarrow> Some ''jdbc:postgresql://custom:5432/mydb'')"
    by (rule build_postgres_datasource [OF dok dex, THEN conjunct2, THEN conjunct2, THEN mp,
          OF conjI [OF dc conjI [OF lower_postgres dm1]]])
  have d2: "overlay (config ?d) (environ ?w) ''SPRING_DATASOURCE_USERNAME''
      = (case environ ?w ''SPRING_DATASOURCE_USERNAME'' of Some a \<Rightarrow> Some a
         | None \<Rightarrow> Some ''myuser'')"
    by (rule build_postgres_datasource [OF dok dex, THEN conjunct2, THEN conjunct2, THEN mp,
          OF conjI [OF dc conjI [OF lower_postgres dm2]]])
  have pk: "kind ?p = ProdLocal" "jwt_secret (config ?p) = Some ''aaaaaaaaaaaaaaaaaaaaaaaaaaaaaaaa''"
    by (simp_all add: with_https_def ProdLocalEnvironment_def)
  have pok: "fst (build ?p ?u) = Inr (overlay (config ?p) (environ ?u))"
    by (simp add: build_fst validate_ProdLocal pk ProdLocalEnvironment_validate_def
        DEV_DEFAULT_JWT_SECRET_def Let_def)
  have pex: "extra_vars (config ?p) k = None" for k
    by (simp add: with_https_def ProdLocalEnvironment_def EnvironmentConfig_init_def)
  have pc: "config ?p = (config ((with_https ^^ 1) (ProdLocalEnvironment ?c)))
      \<lparr>extra_vars := Map.empty\<rparr>"
    by (simp add: with_https_def ProdLocalEnvironment_def EnvironmentConfig_init_def)
  have pm1: "(''SPRING_DATASOURCE_URL'', ''jdbc:postgresql://localhost:5432/contactapp'')
      \<in> set [(''SPRING_DATASOURCE_URL'', ''jdbc:postgresql://localhost:5432/contactapp''),
              (''SPRING_DATASOURCE_USERNAME'', ''contactapp''),
              (''SPRING_DATASOURCE_PASSWORD'', ''contactapp''),
              (''SPRING_DATASOURCE_DRIVER_CLASS_NAME'', ''org.postgresql.Driver'')]"
    by simp
  have pm2: "(''SPRING_DATASOURCE_PASSWORD'', ''contactapp'')
      \<in> set [(''SPRING_DATASOURCE_URL'', ''jdbc:postgresql://localhost:5432/contactapp''),
              (''SPRING_DATASOURCE_USERNAME'', ''contactapp''),
              (''SPRING_DATASOURCE_PASSWORD'', ''contactapp''),
              (''SPRING_DATASOURCE_DRIVER_CLASS_NAME'', ''org.postgresql.Driver'')]"
    by simp
  have p1: "overlay (config ?p) (environ ?u) ''SPRING_DATASOURCE_URL''
      = (case environ ?u ''SPRING_DATASOURCE_URL'' of Some a \<Rightarrow> Some a
         | None \<Rightarrow> Some ''jdbc:postgresql://localhost:5432/contactapp'')"
    by (rule build_postgres_datasource [OF pok pex, THEN conjunct2, THEN conjunct1, THEN mp,
          OF conjI [OF pc pm1]])
  have p2: "overlay (config ?p) (environ ?u) ''SPRING_DATASOURCE_PASSWORD''
      = (case environ ?u ''SPRING_DATASOURCE_PASSWORD'' of Some a \<Rightarrow> Some a
         | None \<Rightarrow> Some ''contactapp'')"
    by (rule build_postgres_datasource [OF pok pex, THEN conjunct2, THEN conjunct1, THEN mp,
          OF conjI [OF pc pm2]])
  have l1: "environ ?w ''SPRING_DATASOURCE_URL'' = None"
    by simp
  have l2: "environ ?w ''SPRING_DATASOURCE_USERNAME'' = Some ''ambient''"
    by simp
  have l3: "environ ?u ''SPRING_DATASOURCE_URL'' = Some ''jdbc:ambient''"
    by simp
  have l4: "environ ?u ''SPRING_DATASOURCE_PASSWORD'' = None"
    by simp
  note lookups = l1 l2 l3 l4
  show ?thesis
    by (simp only: dok pok sum.case d1 d2 p1 p2 lookups option.case simp_thms)
qed

subsection \<open>The production-like builder and the CSP flag\<close>

text \<open>
  C4, evaluated where it breaks. \<open>build\<close> starts from a copy of \<open>os.environ\<close> and only
  ever adds \<open>CSP_RELAXED\<close>; with \<open>csp_relaxed\<close> false it leaves the key as the process
  has it. In a process that exports \<open>CSP_RELAXED=true\<close> next to a valid secret, a
  production-like builder with no extra variables returns both cookie flags
  \<open>true\<close> and the profile \<open>prod\<close>, and \<open>CSP_RELAXED\<close> is present with the value
  \<open>true\<close>, against the class comment ("CSP strict").
\<close>

theorem ProdLocal_build_keeps_ambient_CSP_RELAXED:
  "csp_relaxed (config (ProdLocalEnvironment
       \<lparr>environ = [''JWT_SECRET'' \<mapsto> ''aaaaaaaaaaaaaaaaaaaaaaaaaaaaaaaa'', ''CSP_RELAXED'' \<mapsto> ''true''], stderr = []\<rparr>)) = False
   \<and> extra_vars (config (ProdLocalEnvironment
       \<lparr>environ = [''JWT_SECRET'' \<mapsto> ''aaaaaaaaaaaaaaaaaaaaaaaaaaaaaaaa'', ''CSP_RELAXED'' \<mapsto> ''true''], stderr = []\<rparr>)) = Map.empty
   \<and> (case fst (build
          (ProdLocalEnvironment
             \<lparr>environ = [''JWT_SECRET'' \<mapsto> ''aaaaaaaaaaaaaaaaaaaaaaaaaaaaaaaa'', ''CSP_RELAXED'' \<mapsto> ''true''], stderr = []\<rparr>)
          \<lparr>environ = [''JWT_SECRET'' \<mapsto> ''aaaaaaaaaaaaaaaaaaaaaaaaaaaaaaaa'', ''CSP_RELAXED'' \<mapsto> ''true''], stderr = []\<rparr>)
       of Inl err \<Rightarrow> []
        | Inr e \<Rightarrow> [e ''APP_AUTH_COOKIE_SECURE'', e ''COOKIE_SECURE'', e ''SPRING_PROFILES_ACTIVE'',
                    e ''CSP_RELAXED''])
      = [Some ''true'', Some ''true'', Some ''prod'', Some ''true'']"
  by (simp add: build_fst validate_ProdLocal ProdLocalEnvironment_kind
      ProdLocalEnvironment_validate_def ProdLocalEnvironment_def EnvironmentConfig_init_def
      DEV_DEFAULT_JWT_SECRET_def Let_def overlay_def setdefault_apply map_add_def lower_str_bool)

subsection \<open>A failed validation\<close>

text \<open>
  C5. Whatever the class of the builder and the state of the process: when \<open>validate\<close>
  fails, \<open>build\<close> returns that failure and no dictionary, and the process is as it was
  before the call, so \<open>os.environ\<close> in particular is unchanged.
\<close>

theorem build_aborts_on_failed_validation:
  "fst (validate b w) = Inl err \<Longrightarrow>
   build b w = (Inl err, w) \<and> environ (snd (build b w)) = environ w"
  using validate_Inl_world [of b w err]
  by (cases "validate b w") (simp add: build_def)

text \<open>
  A production-like builder made without \<open>JWT_SECRET\<close>: \<open>build\<close> fails with
  \<open>MissingSecret\<close> and leaves the process alone.
\<close>

theorem build_aborts_on_failed_validation_witness:
  "fst (validate (ProdLocalEnvironment \<lparr>environ = Map.empty, stderr = []\<rparr>)
         \<lparr>environ = [''HOME'' \<mapsto> ''/root''], stderr = []\<rparr>) = Inl MissingSecret
   \<and> build (ProdLocalEnvironment \<lparr>environ = Map.empty, stderr = []\<rparr>)
         \<lparr>environ = [''HOME'' \<mapsto> ''/root''], stderr = []\<rparr>
       = (Inl MissingSecret, \<lparr>environ = [''HOME'' \<mapsto> ''/root''], stderr = []\<rparr>)"
proof -
  have f: "fst (validate (ProdLocalEnvironment \<lparr>environ = Map.empty, stderr = []\<rparr>)
         \<lparr>environ = [''HOME'' \<mapsto> ''/root''], stderr = []\<rparr>) = Inl MissingSecret"
    by (simp add: validate_ProdLocal ProdLocalEnvironment_kind ProdLocalEnvironment_validate_def
        ProdLocalEnvironment_jwt_secret Let_def)
  from build_aborts_on_failed_validation [OF f] f show ?thesis by simp
qed

subsection \<open>The secret is read when the builder is made\<close>





subsection \<open>The CI builder never fails\<close>

text \<open>
  Every step of the overlay keeps the keys it finds, so the result has every key of
  \<open>os.environ\<close> and of \<open>extra_vars\<close>, and the four keys that are always written.
\<close>

lemma upd_keeps: "e k \<noteq> None \<Longrightarrow> (e(a \<mapsto> v)) k \<noteq> None"
  by simp

lemma setdefault_keeps: "e k \<noteq> None \<Longrightarrow> setdefault e a v k \<noteq> None"
  by (simp add: setdefault_def split: option.split)

lemma map_add_keeps: "e k \<noteq> None \<Longrightarrow> (e ++ x) k \<noteq> None"
  by (simp add: map_add_def split: option.split)

lemma if_keeps:
  "(P \<Longrightarrow> x k \<noteq> None) \<Longrightarrow> (\<not> P \<Longrightarrow> y k \<noteq> None) \<Longrightarrow> (if P then x else y) k \<noteq> None"
  by simp

lemma overlay_keeps: "e0 k \<noteq> None \<Longrightarrow> overlay c e0 k \<noteq> None"
  unfolding overlay_def Let_def
  by (intro map_add_keeps if_keeps setdefault_keeps upd_keeps)

lemma overlay_always:
  "overlay c e0 ''APP_AUTH_COOKIE_SECURE'' \<noteq> None"
  "overlay c e0 ''COOKIE_SECURE'' \<noteq> None"
  "overlay c e0 ''SPRING_PROFILES_ACTIVE'' \<noteq> None"
  "overlay c e0 ''REQUIRE_SSL'' \<noteq> None"
  by (simp_all add: overlay_def Let_def map_add_def setdefault_apply split: option.split)

lemma overlay_complete:
  "{''APP_AUTH_COOKIE_SECURE'', ''COOKIE_SECURE'', ''SPRING_PROFILES_ACTIVE'', ''REQUIRE_SSL''}
     \<union> dom e0 \<union> dom (extra_vars c) \<subseteq> dom (overlay c e0)"
proof -
  have "dom e0 \<subseteq> dom (overlay c e0)"
    using overlay_keeps [of e0 _ c] by (auto simp only: dom_def)
  moreover have "dom (extra_vars c) \<subseteq> dom (overlay c e0)"
    using overlay_extra [of c _ _ e0] by (auto simp only: dom_def)
  moreover have "''APP_AUTH_COOKIE_SECURE'' \<in> dom (overlay c e0)"
    "''COOKIE_SECURE'' \<in> dom (overlay c e0)"
    "''SPRING_PROFILES_ACTIVE'' \<in> dom (overlay c e0)"
    "''REQUIRE_SSL'' \<in> dom (overlay c e0)"
    using overlay_always [of c e0] by (simp_all only: domIff not_False_eq_True)
  ultimately show ?thesis
    by (simp only: Un_subset_iff insert_subset empty_subsetI simp_thms)
qed

text \<open>
  C7. For a builder of class \<open>CILocalEnvironment\<close> and any process state, \<open>build\<close>
  returns the complete overlaid dictionary (with both cookie flags, the profile, the SSL
  flag, every key of \<open>os.environ\<close> and every extra variable), and it leaves
  \<open>os.environ\<close> as it was. Where \<open>NVD_API_KEY\<close> is absent from \<open>os.environ\<close>, the
  diagnostic stream receives the one warning, by one \<open>print\<close> call, and nothing else;
  in every case what is written is nothing or that one warning.
\<close>

theorem CILocal_build_never_fails:
  assumes "kind b = CILocal"
  shows "fst (build b w) = Inr (overlay (config b) (environ w))
       \<and> {''APP_AUTH_COOKIE_SECURE'', ''COOKIE_SECURE'', ''SPRING_PROFILES_ACTIVE'', ''REQUIRE_SSL''}
            \<union> dom (environ w) \<union> dom (extra_vars (config b))
          \<subseteq> dom (overlay (config b) (environ w))
       \<and> environ (snd (build b w)) = environ w
       \<and> (environ w ''NVD_API_KEY'' = None
            \<longrightarrow> stderr (snd (build b w)) = stderr w @ [NVD_warning @ [CHR 0x0A]])
       \<and> (stderr (snd (build b w)) = stderr w
            \<or> stderr (snd (build b w)) = stderr w @ [NVD_warning @ [CHR 0x0A]])"
proof -
  have v: "validate b w = CILocalEnvironment_validate b w"
    using assms by (rule validate_CILocal)
  have ok: "fst (build b w) = Inr (overlay (config b) (environ w))"
    by (simp add: build_fst v CILocalEnvironment_validate_def)
  have env: "environ (snd (build b w)) = environ w"
    by (simp add: build_snd validate_environ)
  have err: "environ w ''NVD_API_KEY'' = None
            \<longrightarrow> stderr (snd (build b w)) = stderr w @ [NVD_warning @ [CHR 0x0A]]"
    by (simp add: build_snd v CILocalEnvironment_validate_def print_stderr_def)
  have err2: "stderr (snd (build b w)) = stderr w
            \<or> stderr (snd (build b w)) = stderr w @ [NVD_warning @ [CHR 0x0A]]"
    by (simp add: build_snd v CILocalEnvironment_validate_def print_stderr_def)
  from ok overlay_complete [of "environ w" "config b"] env err err2 show ?thesis
    by (intro conjI)
qed

text \<open>The CI builder in a process with an empty environment: a dictionary and one warning.\<close>

theorem CILocal_build_never_fails_witness:
  "kind CILocalEnvironment = CILocal
   \<and> environ \<lparr>environ = Map.empty, stderr = []\<rparr> ''NVD_API_KEY'' = None
   \<and> fst (build CILocalEnvironment \<lparr>environ = Map.empty, stderr = []\<rparr>)
       = Inr (overlay (config CILocalEnvironment) Map.empty)
   \<and> stderr (snd (build CILocalEnvironment \<lparr>environ = Map.empty, stderr = []\<rparr>))
       = [NVD_warning @ [CHR 0x0A]]"
  using CILocal_build_never_fails [of CILocalEnvironment "\<lparr>environ = Map.empty, stderr = []\<rparr>"]
  by (simp add: CILocalEnvironment_def)

subsection \<open>Building twice\<close>

text \<open>The outcome of \<open>validate\<close> depends on the process through \<open>os.environ\<close> only.\<close>

lemma validate_fst_environ:
  "environ w' = environ w \<Longrightarrow> fst (validate b w') = fst (validate b w)"
  by (simp add: validate_def DevEnvironment_validate_def ProdLocalEnvironment_validate_def
      CILocalEnvironment_validate_def Let_def split: mode.split)

text \<open>
  C8. \<open>build\<close> does not change the builder, so a second call on it, in the process
  state that the first call leaves (same \<open>os.environ\<close>; the diagnostic stream may have
  grown), returns the same result as the first: the identical dictionary, or the same
  failure.
\<close>

theorem build_twice_same_mapping:
  "fst (build b (snd (build b w))) = fst (build b w)"
proof -
  have e: "environ (snd (build b w)) = environ w"
    by (simp add: build_snd validate_environ)
  from validate_fst_environ [OF e, of b] e show ?thesis
    by (simp add: build_fst cong: sum.case_cong)
qed

subsection \<open>The standalone secret check\<close>

text \<open>
  C9. \<open>is_jwt_secret_valid\<close> is false for \<open>None\<close>, for the empty string, for the
  development default and for every string of fewer than 32 characters; it is true for
  every other string of at least 32 characters.
\<close>

theorem is_jwt_secret_valid_cases:
  "\<not> is_jwt_secret_valid None
   \<and> \<not> is_jwt_secret_valid (Some '''')
   \<and> \<not> is_jwt_secret_valid (Some DEV_DEFAULT_JWT_SECRET)
   \<and> (\<forall>s. length s < 32 \<longrightarrow> \<not> is_jwt_secret_valid (Some s))
   \<and> (\<forall>s. 32 \<le> length s \<and> s \<noteq> DEV_DEFAULT_JWT_SECRET \<longrightarrow> is_jwt_secret_valid (Some s))"
  by (auto simp: is_jwt_secret_valid_def)

text \<open>The check at 31 and at 32 letters \<open>a\<close>, as in the test suite.\<close>

theorem is_jwt_secret_valid_cases_witness:
  "length ''aaaaaaaaaaaaaaaaaaaaaaaaaaaaaaa'' < (32::nat)
   \<and> \<not> is_jwt_secret_valid (Some ''aaaaaaaaaaaaaaaaaaaaaaaaaaaaaaa'')
   \<and> (32::nat) \<le> length ''aaaaaaaaaaaaaaaaaaaaaaaaaaaaaaaa''
   \<and> ''aaaaaaaaaaaaaaaaaaaaaaaaaaaaaaaa'' \<noteq> DEV_DEFAULT_JWT_SECRET
   \<and> is_jwt_secret_valid (Some ''aaaaaaaaaaaaaaaaaaaaaaaaaaaaaaaa'')"
proof -
  have a: "length ''aaaaaaaaaaaaaaaaaaaaaaaaaaaaaaa'' < (32::nat)"
    by simp
  have b: "(32::nat) \<le> length ''aaaaaaaaaaaaaaaaaaaaaaaaaaaaaaaa''
      \<and> ''aaaaaaaaaaaaaaaaaaaaaaaaaaaaaaaa'' \<noteq> DEV_DEFAULT_JWT_SECRET"
    by (simp add: DEV_DEFAULT_JWT_SECRET_def)
  from is_jwt_secret_valid_cases a b show ?thesis
    by blast
qed

subsection \<open>An empty secret counts as missing\<close>

text \<open>
  C10. A production-like builder made while \<open>JWT_SECRET\<close> is set to the empty string
  fails validation, and so \<open>build\<close>, with \<open>MissingSecret\<close>, whose message starts
  "JWT_SECRET environment variable is required", and not with \<open>SecretTooShort\<close> for
  the length 0.
\<close>

theorem ProdLocal_empty_secret_is_missing:
  assumes "environ w0 ''JWT_SECRET'' = Some ''''"
  shows "fst (validate (ProdLocalEnvironment w0) w) = Inl MissingSecret
       \<and> fst (validate (ProdLocalEnvironment w0) w) \<noteq> Inl (SecretTooShort 0)
       \<and> fst (build (ProdLocalEnvironment w0) w) = Inl MissingSecret
       \<and> take 43 (ValueError_message MissingSecret) = ''JWT_SECRET environment variable is required''"
  using assms
  by (simp add: build_fst validate_ProdLocal ProdLocalEnvironment_kind
      ProdLocalEnvironment_validate_def ProdLocalEnvironment_jwt_secret Let_def)

text \<open>The theorem in a process whose environment is \<open>JWT_SECRET=\<close> alone.\<close>

theorem ProdLocal_empty_secret_is_missing_witness:
  "environ \<lparr>environ = [''JWT_SECRET'' \<mapsto> ''''], stderr = []\<rparr> ''JWT_SECRET'' = Some ''''
   \<and> fst (build (ProdLocalEnvironment \<lparr>environ = [''JWT_SECRET'' \<mapsto> ''''], stderr = []\<rparr>)
            \<lparr>environ = [''JWT_SECRET'' \<mapsto> ''''], stderr = []\<rparr>) = Inl MissingSecret"
proof -
  have s: "environ \<lparr>environ = [''JWT_SECRET'' \<mapsto> ''''], stderr = []\<rparr> ''JWT_SECRET'' = Some ''''"
    by simp
  from ProdLocal_empty_secret_is_missing [OF s] s show ?thesis
    by simp
qed

end
